theory Spec2Isabelle
  imports Main "HOL-Library.Word"
begin

section \<open>Go values as the program sees them\<close>

text \<open>
  The package \<^verbatim>\<open>jobsd\<close> (file \<^verbatim>\<open>job.go\<close>) binds a function value, checks its
  signature by reflection, calls it, and stores argument lists through
  \<^verbatim>\<open>encoding/gob\<close>. The Go runtime notions the file relies on are fixed first: a panic
  is a result of its own, an interface value is either nil or a dynamic type with data, and a
  type is the descriptor that package \<^verbatim>\<open>reflect\<close> answers questions about.
\<close>

datatype 'a outcome = Panics string | Returns 'a

datatype kind =
    reflect_Invalid | reflect_Bool
  | reflect_Int | reflect_Int8 | reflect_Int16 | reflect_Int32 | reflect_Int64
  | reflect_Uint | reflect_Uint8 | reflect_Uint16 | reflect_Uint32 | reflect_Uint64
  | reflect_Uintptr | reflect_Float32 | reflect_Float64
  | reflect_Complex64 | reflect_Complex128
  | reflect_Array | reflect_Chan | reflect_Func | reflect_Interface | reflect_Map
  | reflect_Pointer | reflect_Slice | reflect_String | reflect_Struct
  | reflect_UnsafePointer

datatype chandir = RecvDir | SendDir | BothDir

text \<open>A method of a method set: its name and the text of its signature.\<close>

type_synonym method_sig = "string \<times> string"

text \<open>
  A type descriptor carries what \<^verbatim>\<open>reflect.Type\<close> reports: the kind, the printed
  name, whether the type is a defined (named) one, a canonical text of its underlying type
  (two types have identical underlying types exactly when the texts agree), the parameter
  and result types and the variadic flag of a function type, the element type of a slice,
  array, pointer, channel or map, the direction of a channel, and the method set (for an
  interface type: the methods it demands). Two descriptors are the same type when equal.
\<close>

datatype rtype = RType
  (Kind: kind) (String: string) (HasName: bool) (Underlying: string)
  (ins: "rtype list") (outs: "rtype list") (IsVariadic: bool)
  (elem: "rtype option") (ChanDir: chandir) (methods: "method_sig list")

text \<open>
  The data behind an interface value. Integers of every width are kept as their
  mathematical value; a function is the index of its body in the program; a reference is
  an address.
\<close>

datatype data =
    DBool bool | DInt int | DString string | DSeq "data list"
  | DNil | DFunc nat | DRef nat

text \<open>A value of type \<^verbatim>\<open>interface{}\<close>: nil, or a dynamic type with its data.\<close>

datatype iface = nil | Dyn rtype data

text \<open>
  A \<^verbatim>\<open>reflect.Value\<close>: the zero Value, or a static type with what
  \<^verbatim>\<open>Interface()\<close> gives back for it (for a Value of interface kind that is the
  element inside the interface, which may be nil).
\<close>

datatype reflect_Value = ZeroValue | RV rtype iface

text \<open>
  The bodies of the program's functions, by index: given the arguments of the call, a body
  panics or returns its results, each as the interface value that holds it.
\<close>

type_synonym program = "nat \<Rightarrow> iface list \<Rightarrow> iface list outcome"

subsection \<open>Predeclared and library types\<close>

definition basic :: "kind \<Rightarrow> string \<Rightarrow> rtype" where
  "basic k n = RType k n True n [] [] False None BothDir []"

definition intType :: rtype where
  "intType = basic reflect_Int ''int''"

definition stringType :: rtype where
  "stringType = basic reflect_String ''string''"

definition boolType :: rtype where
  "boolType = basic reflect_Bool ''bool''"

text \<open>\<^verbatim>\<open>reflect.TypeOf((*error)(nil)).Elem()\<close>: the interface type \<^verbatim>\<open>error\<close>.\<close>

definition errorInterface :: rtype where
  "errorInterface =
     RType reflect_Interface ''error'' True ''interface { Error() string }''
       [] [] False None BothDir [(''Error'', ''func() string'')]"

text \<open>
  The type behind \<^verbatim>\<open>errors.New\<close> of \<^verbatim>\<open>github.com/pkg/errors\<close>: a pointer to
  \<^verbatim>\<open>fundamental\<close>, with methods \<^verbatim>\<open>Error\<close> and \<^verbatim>\<open>Format\<close>. The recorded call
  stack is left out; the message is the data.
\<close>

definition fundamentalType :: rtype where
  "fundamentalType =
     RType reflect_Pointer ''*errors.fundamental'' False ''*errors.fundamental''
       [] [] False None BothDir
       [(''Error'', ''func() string''), (''Format'', ''func(fmt.State, int32)'')]"

definition errors_New :: "string \<Rightarrow> iface" where
  "errors_New message = Dyn fundamentalType (DString message)"

text \<open>\<^verbatim>\<open>reflect.FuncOf\<close>: the unnamed function type of a signature.\<close>

definition FuncOf :: "rtype list \<Rightarrow> rtype list \<Rightarrow> bool \<Rightarrow> rtype" where
  "FuncOf ps rs variadic =
     (let s = ''func('' @ concat (map (\<lambda>t. String t @ '','') ps) @ (if variadic then ''...'' else [])
                @ '')('' @ concat (map (\<lambda>t. String t @ '','') rs) @ '')''
      in RType reflect_Func s False s ps rs variadic None BothDir [])"

subsection \<open>The operations of package reflect that the file calls\<close>

fun ValueOf :: "iface \<Rightarrow> reflect_Value" where
  "ValueOf nil = ZeroValue"
| "ValueOf (Dyn t d) = RV t (Dyn t d)"

fun Value_Kind :: "reflect_Value \<Rightarrow> kind" where
  "Value_Kind ZeroValue = reflect_Invalid"
| "Value_Kind (RV t x) = Kind t"

fun Value_Type :: "reflect_Value \<Rightarrow> rtype outcome" where
  "Value_Type ZeroValue = Panics ''reflect: call of reflect.Value.Type on zero Value''"
| "Value_Type (RV t x) = Returns t"

fun Interface :: "reflect_Value \<Rightarrow> iface outcome" where
  "Interface ZeroValue = Panics ''reflect: call of reflect.Value.Interface on zero Value''"
| "Interface (RV t x) = Returns x"

definition NumIn :: "rtype \<Rightarrow> nat outcome" where
  "NumIn t = (if Kind t \<noteq> reflect_Func
              then Panics (''reflect: NumIn of non-func type '' @ String t)
              else Returns (length (ins t)))"

definition NumOut :: "rtype \<Rightarrow> nat outcome" where
  "NumOut t = (if Kind t \<noteq> reflect_Func
               then Panics (''reflect: NumOut of non-func type '' @ String t)
               else Returns (length (outs t)))"

definition In :: "rtype \<Rightarrow> nat \<Rightarrow> rtype outcome" where
  "In t i = (if Kind t \<noteq> reflect_Func
             then Panics (''reflect: In of non-func type '' @ String t)
             else if i < length (ins t) then Returns (ins t ! i)
             else Panics ''runtime error: index out of range'')"

definition Out :: "rtype \<Rightarrow> nat \<Rightarrow> rtype outcome" where
  "Out t i = (if Kind t \<noteq> reflect_Func
              then Panics (''reflect: Out of non-func type '' @ String t)
              else if i < length (outs t) then Returns (outs t ! i)
              else Panics ''runtime error: index out of range'')"

text \<open>The method set of \<open>V\<close> has every method the interface type \<open>T\<close> demands.\<close>

definition implements :: "rtype \<Rightarrow> rtype \<Rightarrow> bool" where
  "implements T V = (Kind T = reflect_Interface \<and> list_all (\<lambda>m. m \<in> set (methods V)) (methods T))"

definition Implements :: "rtype \<Rightarrow> rtype \<Rightarrow> bool outcome" where
  "Implements t u = (if Kind u \<noteq> reflect_Interface
                     then Panics ''reflect: non-interface type passed to Type.Implements''
                     else Returns (implements u t))"

definition specialChannelAssignability :: "rtype \<Rightarrow> rtype \<Rightarrow> bool" where
  "specialChannelAssignability T V =
     (ChanDir V = BothDir \<and> (\<not> HasName T \<or> \<not> HasName V) \<and> elem T = elem V)"

definition directlyAssignable :: "rtype \<Rightarrow> rtype \<Rightarrow> bool" where
  "directlyAssignable T V =
     (if T = V then True
      else if (HasName T \<and> HasName V) \<or> Kind T \<noteq> Kind V then False
      else if Kind T = reflect_Chan \<and> specialChannelAssignability T V then True
      else Underlying T = Underlying V)"

definition AssignableTo :: "rtype \<Rightarrow> rtype \<Rightarrow> bool" where
  "AssignableTo t u = (directlyAssignable u t \<or> implements u t)"

text \<open>Indexing a slice panics out of range.\<close>

definition index :: "'a list \<Rightarrow> nat \<Rightarrow> 'a outcome" where
  "index xs i = (if i < length xs then Returns (xs ! i)
                 else Panics ''runtime error: index out of range'')"

section \<open>JobFunc\<close>

record JobFunc =
  jobFunc :: reflect_Value

text \<open>
  The loop of \<^verbatim>\<open>check\<close> over the parameters, from index \<open>i\<close> on; the bound
  \<^verbatim>\<open>theType.NumIn()\<close> is read at every round, as in the source.
\<close>

function check_loop :: "rtype \<Rightarrow> iface list \<Rightarrow> nat \<Rightarrow> iface outcome" where
  "check_loop theType args i =
     (case NumIn theType of
        Panics m \<Rightarrow> Panics m
      | Returns n \<Rightarrow>
          if i < n then
            (case index args i of
               Panics m \<Rightarrow> Panics m
             | Returns a \<Rightarrow>
                 (case In theType i of
                    Panics m \<Rightarrow> Panics m
                  | Returns ti \<Rightarrow>
                      if Value_Kind (ValueOf a) \<noteq> Kind ti
                      then Returns (errors_New ''the arg(s) types do not match job args types'')
                      else check_loop theType args (Suc i)))
          else Returns nil)"
  by pat_completeness auto
termination
  by (relation "measure (\<lambda>(theType, args, i). length (ins theType) - i)")
     (auto simp: NumIn_def split: if_splits)

declare check_loop.simps [simp del]

text \<open>
  \<^verbatim>\<open>(*JobFunc).check\<close>: the error it returns (nil when the function and the arguments
  fit), or the panic of a reflect call.
\<close>

definition check :: "JobFunc \<Rightarrow> iface list \<Rightarrow> iface outcome" where
  "check j args =
     (if Value_Kind (jobFunc j) \<noteq> reflect_Func
      then Returns (errors_New ''jobFunc is not a function'')
      else
        (case Value_Type (jobFunc j) of
           Panics m \<Rightarrow> Panics m
         | Returns theType \<Rightarrow>
             (case NumOut theType of
                Panics m \<Rightarrow> Panics m
              | Returns no \<Rightarrow>
                  if no \<noteq> 1 then Returns (errors_New ''jobFunc needs to return one error'')
                  else
                    (case Out theType 0 of
                       Panics m \<Rightarrow> Panics m
                     | Returns rt \<Rightarrow>
                         (case Implements rt errorInterface of
                            Panics m \<Rightarrow> Panics m
                          | Returns imp \<Rightarrow>
                              if \<not> imp
                              then Returns (errors_New ''jobFunc return type needs to be an error'')
                              else
                                (case NumIn theType of
                                   Panics m \<Rightarrow> Panics m
                                 | Returns ni \<Rightarrow>
                                     if ni \<noteq> length args
                                     then Returns (errors_New
                                            ''the number of args do not match the jobs args'')
                                     else check_loop theType args 0))))))"

text \<open>A call fails when it returns an error that is not nil.\<close>

fun failed :: "iface outcome \<Rightarrow> bool" where
  "failed (Panics m) = False"
| "failed (Returns e) = (e \<noteq> nil)"

text \<open>\<^verbatim>\<open>(*JobFunc).paramsCount\<close>: no guard before \<^verbatim>\<open>Type().NumIn()\<close>.\<close>

definition paramsCount :: "JobFunc \<Rightarrow> nat outcome" where
  "paramsCount j =
     (case Value_Type (jobFunc j) of
        Panics m \<Rightarrow> Panics m
      | Returns t \<Rightarrow> NumIn t)"

subsection \<open>reflect.Value.Call\<close>

text \<open>\<^verbatim>\<open>Kind.String\<close>, as it appears in the panics of package reflect.\<close>

fun Kind_String :: "kind \<Rightarrow> string" where
  "Kind_String reflect_Invalid = ''invalid''"
| "Kind_String reflect_Bool = ''bool''"
| "Kind_String reflect_Int = ''int''"
| "Kind_String reflect_Int8 = ''int8''"
| "Kind_String reflect_Int16 = ''int16''"
| "Kind_String reflect_Int32 = ''int32''"
| "Kind_String reflect_Int64 = ''int64''"
| "Kind_String reflect_Uint = ''uint''"
| "Kind_String reflect_Uint8 = ''uint8''"
| "Kind_String reflect_Uint16 = ''uint16''"
| "Kind_String reflect_Uint32 = ''uint32''"
| "Kind_String reflect_Uint64 = ''uint64''"
| "Kind_String reflect_Uintptr = ''uintptr''"
| "Kind_String reflect_Float32 = ''float32''"
| "Kind_String reflect_Float64 = ''float64''"
| "Kind_String reflect_Complex64 = ''complex64''"
| "Kind_String reflect_Complex128 = ''complex128''"
| "Kind_String reflect_Array = ''array''"
| "Kind_String reflect_Chan = ''chan''"
| "Kind_String reflect_Func = ''func''"
| "Kind_String reflect_Interface = ''interface''"
| "Kind_String reflect_Map = ''map''"
| "Kind_String reflect_Pointer = ''ptr''"
| "Kind_String reflect_Slice = ''slice''"
| "Kind_String reflect_String = ''string''"
| "Kind_String reflect_Struct = ''struct''"
| "Kind_String reflect_UnsafePointer = ''unsafe.Pointer''"

fun fn :: "iface \<Rightarrow> nat option" where
  "fn (Dyn t (DFunc c)) = Some c"
| "fn x = None"

fun contents :: "reflect_Value \<Rightarrow> iface" where
  "contents ZeroValue = nil"
| "contents (RV t x) = x"

text \<open>
  The first argument among the fixed parameters that is not assignable to its parameter
  type, as the panic message of \<^verbatim>\<open>Call\<close>; \<open>None\<close> when all fit.
\<close>

fun assignArgs :: "reflect_Value list \<Rightarrow> rtype list \<Rightarrow> string option" where
  "assignArgs (ZeroValue # xs) (targ # ts) =
     Some ''reflect: call of reflect.Value.Type on zero Value''"
| "assignArgs (RV xt x # xs) (targ # ts) =
     (if \<not> AssignableTo xt targ
      then Some (''reflect: Call using '' @ String xt @ '' as type '' @ String targ)
      else assignArgs xs ts)"
| "assignArgs xs ts = None"

text \<open>The same for the arguments that go into the slice of a variadic parameter.\<close>

fun variadicArgs :: "reflect_Value list \<Rightarrow> rtype \<Rightarrow> string option" where
  "variadicArgs [] el = None"
| "variadicArgs (ZeroValue # xs) el =
     Some ''reflect: call of reflect.Value.Type on zero Value''"
| "variadicArgs (RV xt x # xs) el =
     (if \<not> AssignableTo xt el
      then Some (''reflect: cannot use '' @ String xt @ '' as type '' @ String el @ '' in Call'')
      else variadicArgs xs el)"

text \<open>
  \<^verbatim>\<open>v.Call(in)\<close>: the checks of package reflect in their order (kind, nil function,
  argument count, zero Values, assignability, the variadic tail), then the body; the
  results come back as Values of the declared result types.
\<close>

definition Call :: "program \<Rightarrow> reflect_Value \<Rightarrow> reflect_Value list \<Rightarrow> reflect_Value list outcome" where
  "Call prog v inp =
     (case v of
        ZeroValue \<Rightarrow> Panics ''reflect: call of reflect.Value.Call on zero Value''
      | RV t x \<Rightarrow>
          if Kind t \<noteq> reflect_Func
          then Panics (''reflect: call of reflect.Value.Call on '' @ Kind_String (Kind t) @ '' Value'')
          else
            (case fn x of
               None \<Rightarrow> Panics ''reflect.Value.Call: call of nil function''
             | Some c \<Rightarrow>
                 (let n = (if IsVariadic t then length (ins t) - 1 else length (ins t)) in
                  if length inp < n then Panics ''reflect: Call with too few input arguments''
                  else if \<not> IsVariadic t \<and> length inp > n
                  then Panics ''reflect: Call with too many input arguments''
                  else if list_ex (\<lambda>x. Value_Kind x = reflect_Invalid) inp
                  then Panics ''reflect: Call using zero Value argument''
                  else
                    (case assignArgs (take n inp) (take n (ins t)) of
                       Some m \<Rightarrow> Panics m
                     | None \<Rightarrow>
                         (case (if IsVariadic t
                                then (case drop n (ins t) of
                                        [] \<Rightarrow> Some ''runtime error: index out of range''
                                      | tn # r \<Rightarrow>
                                          (case elem tn of
                                             None \<Rightarrow> Some (''reflect: Elem of invalid type '' @ String tn)
                                           | Some el \<Rightarrow> variadicArgs (drop n inp) el))
                                else None) of
                            Some m \<Rightarrow> Panics m
                          | None \<Rightarrow>
                              (case prog c (map contents inp) of
                                 Panics m \<Rightarrow> Panics m
                               | Returns rs \<Rightarrow> Returns (map2 RV (outs t) rs)))))))"

text \<open>The type assertion \<^verbatim>\<open>x.(error)\<close> in its two-result form.\<close>

fun assert_error :: "iface \<Rightarrow> iface \<times> bool" where
  "assert_error nil = (nil, False)"
| "assert_error (Dyn t d) =
     (if implements errorInterface t then (Dyn t d, True) else (nil, False))"

text \<open>
  \<^verbatim>\<open>(*JobFunc).execute\<close>. Nothing in it recovers: a panic of a reflect call or of the
  bound function is the outcome of \<^verbatim>\<open>execute\<close>.
\<close>

definition execute :: "program \<Rightarrow> JobFunc \<Rightarrow> iface list \<Rightarrow> iface outcome" where
  "execute prog j params =
     (case paramsCount j of
        Panics m \<Rightarrow> Panics m
      | Returns n \<Rightarrow>
          if n \<noteq> length params then Returns (errors_New ''func parameters mismatch'')
          else
            (let inp = map ValueOf params in
             case Call prog (jobFunc j) inp of
               Panics m \<Rightarrow> Panics m
             | Returns res \<Rightarrow>
                 if length res \<noteq> 1 then Returns (errors_New ''func does not return a value'')
                 else
                   (case index res 0 of
                      Panics m \<Rightarrow> Panics m
                    | Returns r0 \<Rightarrow>
                        (case Interface r0 of
                           Panics m \<Rightarrow> Panics m
                         | Returns x \<Rightarrow>
                             (case assert_error x of
                                (err, ok) \<Rightarrow>
                                  if ok \<and> err \<noteq> nil then Returns err else Returns nil)))))"

definition NewJobFunc :: "iface \<Rightarrow> JobFunc" where
  "NewJobFunc theFunc = \<lparr>jobFunc = ValueOf theFunc\<rparr>"

section \<open>JobContainer\<close>

text \<open>
  \<^verbatim>\<open>time.Duration\<close> is an \<^verbatim>\<open>int64\<close>; \<^verbatim>\<open>int\<close> is taken at its 64-bit width. The
  setters only store. The pointer to the \<^verbatim>\<open>JobFunc\<close> is nil or its target.
\<close>

record JobContainer =
  jobFunc' :: "JobFunc option"
  retryTimeout :: "64 word"
  retryOnErrorLimit :: "64 word"
  retryOnTimeoutLimit :: "64 word"

text \<open>
  The setters take a pointer receiver and return it, so the containers live in a store,
  addressed by number; an address with nothing behind it is the nil pointer.
\<close>

type_synonym store = "nat \<Rightarrow> JobContainer option"

definition RetryTimeout :: "store \<Rightarrow> nat \<Rightarrow> 64 word \<Rightarrow> (store \<times> nat) outcome" where
  "RetryTimeout h j timeout =
     (case h j of
        None \<Rightarrow> Panics ''runtime error: invalid memory address or nil pointer dereference''
      | Some c \<Rightarrow> Returns (h(j \<mapsto> c\<lparr>retryTimeout := timeout\<rparr>), j))"

definition RetryErrorLimit :: "store \<Rightarrow> nat \<Rightarrow> 64 word \<Rightarrow> (store \<times> nat) outcome" where
  "RetryErrorLimit h j limit =
     (case h j of
        None \<Rightarrow> Panics ''runtime error: invalid memory address or nil pointer dereference''
      | Some c \<Rightarrow> Returns (h(j \<mapsto> c\<lparr>retryOnErrorLimit := limit\<rparr>), j))"

definition RetryTimeoutLimit :: "store \<Rightarrow> nat \<Rightarrow> 64 word \<Rightarrow> (store \<times> nat) outcome" where
  "RetryTimeoutLimit h j limit =
     (case h j of
        None \<Rightarrow> Panics ''runtime error: invalid memory address or nil pointer dereference''
      | Some c \<Rightarrow> Returns (h(j \<mapsto> c\<lparr>retryOnTimeoutLimit := limit\<rparr>), j))"

text \<open>A chained call \<^verbatim>\<open>a.F(x).G(y)\<close>: the next setter runs on what the first returned.\<close>

definition chain :: "(store \<times> nat) outcome \<Rightarrow> (store \<Rightarrow> nat \<Rightarrow> (store \<times> nat) outcome) \<Rightarrow> (store \<times> nat) outcome" where
  "chain r f = (case r of Panics m \<Rightarrow> Panics m | Returns (h, j) \<Rightarrow> f h j)"

section \<open>Args\<close>

text \<open>
  \<^verbatim>\<open>type Args []interface{}\<close>. The gob encoder and decoder and \<^verbatim>\<open>fmt.Sprint\<close> are
  library code; \<^verbatim>\<open>Value\<close> and \<^verbatim>\<open>Scan\<close> take them as arguments. A fresh encoder on a
  fresh buffer, run on a list, leaves bytes in the buffer and returns an error (nil when it
  succeeded). A fresh decoder on the bytes, run on the pointer to a list, returns an error
  and leaves a list behind the pointer.
\<close>

type_synonym Args = "iface list"
type_synonym gob_Encode = "Args \<Rightarrow> string \<times> iface"
type_synonym gob_Decode = "string \<Rightarrow> Args \<Rightarrow> iface \<times> Args"
type_synonym fmt_Sprint = "iface list \<Rightarrow> string"

text \<open>The type assertion \<^verbatim>\<open>value.(string)\<close> in its two-result form.\<close>

fun assert_string :: "iface \<Rightarrow> string \<times> bool" where
  "assert_string (Dyn t (DString s)) = (if t = stringType then (s, True) else ([], False))"
| "assert_string x = ([], False)"

text \<open>\<^verbatim>\<open>(*Args).Scan\<close>: the error, and the list behind the receiver afterwards.\<close>

definition Scan :: "fmt_Sprint \<Rightarrow> gob_Decode \<Rightarrow> Args \<Rightarrow> iface \<Rightarrow> iface \<times> Args" where
  "Scan Sprint Decode p v =
     (case assert_string v of
        (data, ok) \<Rightarrow>
          if \<not> ok
          then (errors_New (Sprint [Dyn stringType (DString ''failed to unmarshal params value:''), v]), p)
          else Decode data p)"

text \<open>\<^verbatim>\<open>Args.Value\<close>: the driver value and the error. What \<^verbatim>\<open>Encode\<close> returns is dropped.\<close>

definition Value :: "gob_Encode \<Rightarrow> Args \<Rightarrow> iface \<times> iface" where
  "Value Encode p =
     (if length p = 0 then (nil, nil)
      else (case Encode p of (buf, err) \<Rightarrow> (Dyn stringType (DString buf), nil)))"

subsection \<open>The wire format of encoding/gob\<close>

text \<open>
  What \<^verbatim>\<open>gob.NewEncoder(&buf).Encode(p)\<close> writes for an \<^verbatim>\<open>Args\<close> and what
  \<^verbatim>\<open>gob.NewDecoder(r).Decode(p)\<close> reads back, following package \<^verbatim>\<open>encoding/gob\<close>
  function by function (the names are gob's). The stream is a sequence of messages, each a
  byte count and a body; a body starts with a type id, negative when a type definition
  follows. In a fresh process the slice type \<^verbatim>\<open>Args\<close> gets the first user id, 65; its
  element type \<^verbatim>\<open>interface{}\<close> has the built-in id 8.

  Of the types gob registers for interface values the booleans, the integers and the strings
  are followed here, and the nil interface. Floating-point and complex numbers have no data
  in this model; elements of slice types and pointers are not followed, and the encoder
  below answers them as it answers a type that is not registered. The decoder follows a
  stream of one slice type definition and one value; what a failed \<^verbatim>\<open>Decode\<close> leaves
  behind the pointer depends on the capacity of the slice and is not followed, the receiver
  is left as it was. Integers are those of a 64-bit target.
\<close>

text \<open>\<^verbatim>\<open>tooBig\<close>, the longest message gob writes or reads.\<close>

definition tooBig :: nat where
  "tooBig = 2 ^ 33"

text \<open>Decimal digits, for the numbers in gob's error texts.\<close>

fun decimal :: "nat \<Rightarrow> string" where
  "decimal n = (if n < 10 then [char_of (48 + n)] else decimal (n div 10) @ [char_of (48 + n mod 10)])"

declare decimal.simps [simp del]

text \<open>The bytes of \<open>x\<close>, most significant first, without leading zero bytes.\<close>

fun bigEndian :: "nat \<Rightarrow> string" where
  "bigEndian x = (if x = 0 then [] else bigEndian (x div 256) @ [char_of (x mod 256)])"

declare bigEndian.simps [simp del]

text \<open>
  \<^verbatim>\<open>encodeUint\<close>: one byte up to 127, else the negated byte count and the bytes.
  \<^verbatim>\<open>encodeInt\<close>: the sign goes to the lowest bit.
\<close>

definition encodeUint :: "nat \<Rightarrow> string" where
  "encodeUint x =
     (if x \<le> 127 then [char_of x]
      else char_of (256 - length (bigEndian x)) # bigEndian x)"

definition encodeInt :: "int \<Rightarrow> string" where
  "encodeInt i = encodeUint (if i < 0 then nat (2 * (- i - 1) + 1) else nat (2 * i))"

text \<open>\<^verbatim>\<open>decodeUint\<close> on the buffer of a message, and \<^verbatim>\<open>toInt\<close>.\<close>

definition uintOf :: "string \<Rightarrow> nat" where
  "uintOf bs = foldl (\<lambda>x c. x * 256 + of_char c) 0 bs"

fun decodeUint :: "string \<Rightarrow> string + nat \<times> string" where
  "decodeUint [] = Inl ''EOF''"
| "decodeUint (b # buf) =
     (if (of_char b :: nat) \<le> 127 then Inr (of_char b, buf)
      else
        (let n = 256 - of_char b in
         if n > 8 then Inl ''gob: encoded unsigned integer out of range''
         else if length buf < n
         then Inl (''gob: invalid uint data length '' @ decimal n @ '': exceeds input size ''
                     @ decimal (length buf))
         else Inr (uintOf (take n buf), drop n buf)))"

definition toInt :: "nat \<Rightarrow> int" where
  "toInt x = (if odd x then - int (x div 2) - 1 else int (x div 2))"

text \<open>\<^verbatim>\<open>decodeUintReader\<close>: the same on a reader, with the errors of \<^verbatim>\<open>io.ReadFull\<close>.\<close>

fun decodeUintReader :: "string \<Rightarrow> string + nat \<times> string" where
  "decodeUintReader [] = Inl ''EOF''"
| "decodeUintReader (b # r) =
     (if (of_char b :: nat) \<le> 127 then Inr (of_char b, r)
      else
        (let n = 256 - of_char b in
         if n > 8 then Inl ''gob: encoded unsigned integer out of range''
         else if length r < n then Inl ''unexpected EOF''
         else Inr (uintOf (take n r), drop n r)))"

definition nextInt :: "string \<Rightarrow> string + int \<times> string" where
  "nextInt buf =
     (case decodeUintReader buf of
        Inl e \<Rightarrow> Inl e
      | Inr (x, b) \<Rightarrow> Inr (toInt x, b))"

definition decodeInt :: "string \<Rightarrow> string + int \<times> string" where
  "decodeInt buf =
     (case decodeUint buf of
        Inl e \<Rightarrow> Inl e
      | Inr (x, b) \<Rightarrow> Inr (toInt x, b))"

definition recvMessage :: "string \<Rightarrow> string + string \<times> string" where
  "recvMessage r =
     (case decodeUintReader r of
        Inl e \<Rightarrow> Inl e
      | Inr (nbytes, r') \<Rightarrow>
          if tooBig \<le> nbytes then Inl ''invalid message length''
          else if length r' < nbytes then Inl ''unexpected EOF''
          else Inr (take nbytes r', drop nbytes r'))"

text \<open>\<^verbatim>\<open>errors.New\<close> of the standard library; \<^verbatim>\<open>io.EOF\<close> and gob's errors are such values.\<close>

definition std_error :: "string \<Rightarrow> iface" where
  "std_error message =
     Dyn (RType reflect_Pointer ''*errors.errorString'' False ''*errors.errorString''
            [] [] False None BothDir [(''Error'', ''func() string'')])
         (DString message)"

text \<open>
  The kinds of the registered types that are followed, the registry in both directions
  (\<^verbatim>\<open>concreteTypeToName\<close>, \<^verbatim>\<open>nameToConcreteType\<close>: a predeclared type is registered
  under its own name), the built-in type id each kind is sent with (\<^verbatim>\<open>tBool\<close>,
  \<^verbatim>\<open>tInt\<close>, \<^verbatim>\<open>tUint\<close>, \<^verbatim>\<open>tString\<close>), and the values each integer kind holds.
\<close>

definition gobKinds :: "kind list" where
  "gobKinds =
     [reflect_Bool, reflect_Int, reflect_Int8, reflect_Int16, reflect_Int32, reflect_Int64,
      reflect_Uint, reflect_Uint8, reflect_Uint16, reflect_Uint32, reflect_Uint64,
      reflect_Uintptr, reflect_String]"

definition registered :: "rtype \<Rightarrow> bool" where
  "registered t = list_ex (\<lambda>k. t = basic k (Kind_String k)) gobKinds"

definition nameToConcreteType :: "string \<Rightarrow> rtype option" where
  "nameToConcreteType name =
     map_option (\<lambda>k. basic k (Kind_String k)) (find (\<lambda>k. Kind_String k = name) gobKinds)"

fun wireId :: "kind \<Rightarrow> nat" where
  "wireId reflect_Bool = 1"
| "wireId reflect_Int = 2"
| "wireId reflect_Int8 = 2"
| "wireId reflect_Int16 = 2"
| "wireId reflect_Int32 = 2"
| "wireId reflect_Int64 = 2"
| "wireId reflect_Uint = 3"
| "wireId reflect_Uint8 = 3"
| "wireId reflect_Uint16 = 3"
| "wireId reflect_Uint32 = 3"
| "wireId reflect_Uint64 = 3"
| "wireId reflect_Uintptr = 3"
| "wireId reflect_String = 6"
| "wireId k = 0"

fun bitSize :: "kind \<Rightarrow> nat" where
  "bitSize reflect_Int8 = 8"
| "bitSize reflect_Int16 = 16"
| "bitSize reflect_Int32 = 32"
| "bitSize reflect_Uint8 = 8"
| "bitSize reflect_Uint16 = 16"
| "bitSize reflect_Uint32 = 32"
| "bitSize k = 64"

definition inRange :: "kind \<Rightarrow> int \<Rightarrow> bool" where
  "inRange k i =
     (if wireId k = 2 then - (2 ^ (bitSize k - 1)) \<le> i \<and> i < 2 ^ (bitSize k - 1)
      else 0 \<le> i \<and> i < 2 ^ bitSize k)"

text \<open>
  The encoder. \<^verbatim>\<open>encodeInterface\<close> writes the registered name, the type id, and the
  value as a message of its own (a zero field delta, then the value); a nil interface is
  the empty name. \<^verbatim>\<open>encodeArray\<close> stops at the first element that fails.
\<close>

fun encodeValue :: "kind \<Rightarrow> data \<Rightarrow> string" where
  "encodeValue k (DBool b) = encodeUint (if b then 1 else 0)"
| "encodeValue k (DInt i) = (if wireId k = 2 then encodeInt i else encodeUint (nat i))"
| "encodeValue k (DString s) = encodeUint (length s) @ s"
| "encodeValue k d = []"

fun encodeInterface :: "iface \<Rightarrow> string + string" where
  "encodeInterface nil = Inr [char_of (0::nat)]"
| "encodeInterface (Dyn t d) =
     (if Kind t = reflect_Pointer \<and> d = DNil
      then Inl (''gob: gob: cannot encode nil pointer of type '' @ String t @ '' inside interface'')
      else if \<not> registered t
      then Inl (''gob: type not registered for interface: '' @ String t)
      else
        (let payload = char_of (0::nat) # encodeValue (Kind t) d
         in Inr (encodeUint (length (String t)) @ String t
                 @ encodeInt (int (wireId (Kind t)))
                 @ encodeUint (length payload) @ payload)))"

fun encodeArray :: "iface list \<Rightarrow> string + string" where
  "encodeArray [] = Inr []"
| "encodeArray (x # xs) =
     (case encodeInterface x of
        Inl e \<Rightarrow> Inl e
      | Inr b \<Rightarrow> (case encodeArray xs of Inl e \<Rightarrow> Inl e | Inr bs \<Rightarrow> Inr (b @ bs)))"

text \<open>\<^verbatim>\<open>writeMessage\<close>: the byte count, then the body.\<close>

definition message :: "string \<Rightarrow> string" where
  "message b = encodeUint (length b) @ b"

text \<open>
  The \<^verbatim>\<open>wireType\<close> of a slice type as gob encodes a struct: field deltas, with
  \<^verbatim>\<open>SliceT\<close> the second field of \<^verbatim>\<open>wireType\<close>, then \<^verbatim>\<open>CommonType\<close> (name, left
  out when empty, and id) and \<^verbatim>\<open>Elem\<close>, each struct closed by a zero.
\<close>

definition wireSlice :: "string \<Rightarrow> int \<Rightarrow> int \<Rightarrow> string" where
  "wireSlice name tid el =
     [char_of (2::nat), char_of (1::nat)]
     @ (if name = [] then [char_of (2::nat)]
        else [char_of (1::nat)] @ encodeUint (length name) @ name @ [char_of (1::nat)])
     @ encodeInt tid @ [char_of (0::nat)]
     @ [char_of (1::nat)] @ encodeInt el @ [char_of (0::nat)]
     @ [char_of (0::nat)]"

text \<open>
  \<^verbatim>\<open>Encode\<close> on a fresh encoder: the type definition goes out first, as a message; the
  value message follows only when every element was encoded and the message is not too
  big. The first result is what reached the buffer.
\<close>

definition gob_Encode :: gob_Encode where
  "gob_Encode p =
     (let typeDef = message (encodeInt (- 65) @ wireSlice ''Args'' 65 8) in
      case encodeArray p of
        Inl e \<Rightarrow> (typeDef, std_error e)
      | Inr els \<Rightarrow>
          (let body = encodeInt 65 @ [char_of (0::nat)] @ encodeUint (length p) @ els in
           if tooBig \<le> length body then (typeDef, std_error ''gob: encoder: message too big'')
           else (typeDef @ message body, nil)))"

text \<open>The decoder: \<^verbatim>\<open>decString\<close> and the decoding of a value of a registered type.\<close>

definition decString :: "string \<Rightarrow> string + string \<times> string" where
  "decString buf =
     (case decodeUint buf of
        Inl e \<Rightarrow> Inl e
      | Inr (n, b) \<Rightarrow>
          if 2 ^ 63 \<le> n \<or> length b < n \<or> tooBig \<le> n
          then Inl (''gob: bad string slice length: '' @ decimal n)
          else Inr (take n b, drop n b))"

definition decodeValue :: "rtype \<Rightarrow> string \<Rightarrow> string + data \<times> string" where
  "decodeValue t buf =
     (if wireId (Kind t) = 1 then
        (case decodeUint buf of
           Inl e \<Rightarrow> Inl e
         | Inr (x, b) \<Rightarrow> Inr (DBool (x \<noteq> 0), b))
      else if wireId (Kind t) = 2 then
        (case decodeInt buf of
           Inl e \<Rightarrow> Inl e
         | Inr (v, b) \<Rightarrow>
             if \<not> inRange (Kind t) v
             then Inl (''value for '' @ [CHR 0x22] @ String t @ [CHR 0x22] @ '' out of range'')
             else Inr (DInt v, b))
      else if wireId (Kind t) = 3 then
        (case decodeUint buf of
           Inl e \<Rightarrow> Inl e
         | Inr (v, b) \<Rightarrow>
             if \<not> inRange (Kind t) (int v)
             then Inl (''value for '' @ [CHR 0x22] @ String t @ [CHR 0x22] @ '' out of range'')
             else Inr (DInt (int v), b))
      else
        (case decString buf of
           Inl e \<Rightarrow> Inl e
         | Inr (s, b) \<Rightarrow> Inr (DString s, b)))"

definition typeString :: "int \<Rightarrow> string" where
  "typeString i =
     (if i = 1 then ''bool'' else if i = 2 then ''int'' else if i = 3 then ''uint''
      else if i = 4 then ''float'' else if i = 5 then ''bytes'' else if i = 6 then ''string''
      else if i = 7 then ''complex'' else if i = 8 then ''interface''
      else ''<non-existent type>'')"

text \<open>
  \<^verbatim>\<open>decodeInterface\<close>: the name, the type id, the byte count (read and not used), the
  zero delta and the value. \<^verbatim>\<open>decodeSlice\<close> reads the count, bounded by
  \<^verbatim>\<open>tooBig\<close> over the 16 bytes of an interface, then the elements.
\<close>

definition decodeInterface :: "string \<Rightarrow> string + iface \<times> string" where
  "decodeInterface buf =
     (case decodeUint buf of
        Inl e \<Rightarrow> Inl e
      | Inr (nr, b1) \<Rightarrow>
          if 2 ^ 31 < nr then Inl (''gob: invalid type name length '' @ decimal nr)
          else if length b1 < nr
          then Inl (''gob: invalid type name length '' @ decimal nr @ '': exceeds input size'')
          else
            (let name = take nr b1; b2 = drop nr b1 in
             if name = [] then Inr (nil, b2)
             else if 1024 < length name
             then Inl (''gob: name too long ('' @ decimal (length name) @ '' bytes)'')
             else
               (case nameToConcreteType name of
                  None \<Rightarrow>
                    Inl (''gob: name not registered for interface: '' @ [CHR 0x22] @ name @ [CHR 0x22])
                | Some t \<Rightarrow>
                    (case nextInt b2 of
                       Inl e \<Rightarrow> Inl e
                     | Inr (concreteId, b3) \<Rightarrow>
                         if concreteId < 0 then Inl ''gob: duplicate type received''
                         else
                           (case decodeUint b3 of
                              Inl e \<Rightarrow> Inl e
                            | Inr (count, b4) \<Rightarrow>
                                if concreteId \<noteq> int (wireId (Kind t))
                                then Inl (''gob: decoding into local type '' @ String t
                                          @ '', received remote type '' @ typeString concreteId)
                                else
                                  (case decodeUint b4 of
                                     Inl e \<Rightarrow> Inl e
                                   | Inr (delta, b5) \<Rightarrow>
                                       if delta \<noteq> 0
                                       then Inl ''gob: decode: corrupted data: non-zero delta for singleton''
                                       else
                                         (case decodeValue t b5 of
                                            Inl e \<Rightarrow> Inl e
                                          | Inr (d, b6) \<Rightarrow> Inr (Dyn t d, b6))))))))"

fun decodeArrayHelper :: "nat \<Rightarrow> nat \<Rightarrow> string \<Rightarrow> string + iface list \<times> string" where
  "decodeArrayHelper len 0 buf = Inr ([], buf)"
| "decodeArrayHelper len (Suc n) buf =
     (if buf = []
      then Inl (''gob: decoding array or slice: length exceeds input size ('' @ decimal len
                @ '' elements)'')
      else
        (case decodeInterface buf of
           Inl e \<Rightarrow> Inl e
         | Inr (x, b) \<Rightarrow>
             (case decodeArrayHelper len n b of
                Inl e \<Rightarrow> Inl e
              | Inr (xs, b') \<Rightarrow> Inr (x # xs, b'))))"

definition decodeSlice :: "string \<Rightarrow> string + iface list \<times> string" where
  "decodeSlice buf =
     (case decodeUint buf of
        Inl e \<Rightarrow> Inl e
      | Inr (u, b) \<Rightarrow>
          if 2 ^ 63 \<le> u \<or> tooBig < u * 16
          then Inl (''gob: interface {} slice too big: '' @ decimal u @ '' elements of 16 bytes'')
          else decodeArrayHelper u u b)"

text \<open>Reading the type definition: the struct decoder on \<^verbatim>\<open>wireType\<close>, for a slice type.\<close>

definition errRange :: string where
  "errRange = ''gob: bad data: field numbers out of bounds''"

definition badDelta :: "nat \<Rightarrow> string" where
  "badDelta d = (if 2 ^ 63 \<le> d then ''gob: decode: corrupted data: negative delta'' else errRange)"

definition endStruct :: "'a \<Rightarrow> string \<Rightarrow> string + 'a \<times> string" where
  "endStruct v buf =
     (case decodeUint buf of
        Inl e \<Rightarrow> Inl e
      | Inr (d, b) \<Rightarrow> if d = 0 then Inr (v, b) else Inl (badDelta d))"

definition decodeId :: "string \<Rightarrow> string \<Rightarrow> string + (string \<times> int) \<times> string" where
  "decodeId name buf =
     (case decodeInt buf of
        Inl e \<Rightarrow> Inl e
      | Inr (i, b) \<Rightarrow> endStruct (name, i) b)"

definition decodeCommonType :: "string \<Rightarrow> string + (string \<times> int) \<times> string" where
  "decodeCommonType buf =
     (case decodeUint buf of
        Inl e \<Rightarrow> Inl e
      | Inr (d, b) \<Rightarrow>
          if d = 0 then Inr (([], 0), b)
          else if d = 1 then
            (case decString b of
               Inl e \<Rightarrow> Inl e
             | Inr (name, b1) \<Rightarrow>
                 (case decodeUint b1 of
                    Inl e \<Rightarrow> Inl e
                  | Inr (d2, b2) \<Rightarrow>
                      if d2 = 0 then Inr ((name, 0), b2)
                      else if d2 = 1 then decodeId name b2
                      else Inl (badDelta d2)))
          else if d = 2 then decodeId [] b
          else Inl (badDelta d))"

definition decodeElem :: "string \<Rightarrow> string + int \<times> string" where
  "decodeElem buf =
     (case decodeInt buf of
        Inl e \<Rightarrow> Inl e
      | Inr (el, b) \<Rightarrow> endStruct el b)"

definition decodeSliceType :: "string \<Rightarrow> string + int \<times> string" where
  "decodeSliceType buf =
     (case decodeUint buf of
        Inl e \<Rightarrow> Inl e
      | Inr (d, b) \<Rightarrow>
          if d = 0 then Inr (0, b)
          else if d = 1 then
            (case decodeCommonType b of
               Inl e \<Rightarrow> Inl e
             | Inr (c, b1) \<Rightarrow>
                 (case decodeUint b1 of
                    Inl e \<Rightarrow> Inl e
                  | Inr (d2, b2) \<Rightarrow>
                      if d2 = 0 then Inr (0, b2)
                      else if d2 = 1 then decodeElem b2
                      else Inl (badDelta d2)))
          else if d = 2 then decodeElem b
          else Inl (badDelta d))"

definition decodeWireType :: "string \<Rightarrow> string + int \<times> string" where
  "decodeWireType buf =
     (case decodeUint buf of
        Inl e \<Rightarrow> Inl e
      | Inr (d, b) \<Rightarrow>
          if d = 2 then
            (case decodeSliceType b of
               Inl e \<Rightarrow> Inl e
             | Inr (el, b1) \<Rightarrow> endStruct el b1)
          else if d = 0 \<or> d = 1 \<or> (3 \<le> d \<and> d \<le> 7)
          then Inl ''gob: decoding into local type *jobsd.Args, received remote type of another shape''
          else Inl (badDelta d))"

text \<open>
  \<^verbatim>\<open>Decode\<close> on a fresh decoder: the message with the type definition, the message
  with the value, the check that the value is a slice of interfaces, the zero delta of a
  value that is not a struct, the slice. Bytes after the value are not read.
\<close>

definition incompatible :: "int \<Rightarrow> string" where
  "incompatible i =
     ''gob: decoding into local type *jobsd.Args, received remote type '' @ typeString i"

definition gob_Decode :: gob_Decode where
  "gob_Decode r p =
     (case recvMessage r of
        Inl e \<Rightarrow> (std_error e, p)
      | Inr (m1, r1) \<Rightarrow>
          (case nextInt m1 of
             Inl e \<Rightarrow> (std_error e, p)
           | Inr (id1, b1) \<Rightarrow>
               if 0 \<le> id1 then (std_error (incompatible id1), p)
               else if - id1 < 64 then (std_error ''gob: duplicate type received'', p)
               else
                 (case decodeWireType b1 of
                    Inl e \<Rightarrow> (std_error e, p)
                  | Inr (el, rest) \<Rightarrow>
                      if rest \<noteq> [] then (std_error ''extra data in buffer'', p)
                      else
                        (case recvMessage r1 of
                           Inl e \<Rightarrow> (std_error (if e = ''EOF'' then ''unexpected EOF'' else e), p)
                         | Inr (m2, r2) \<Rightarrow>
                             (case nextInt m2 of
                                Inl e \<Rightarrow> (std_error e, p)
                              | Inr (id2, b2) \<Rightarrow>
                                  if id2 < 0 then (std_error ''gob: duplicate type received'', p)
                                  else if id2 \<noteq> - id1 \<or> el \<noteq> 8
                                  then (std_error (incompatible id2), p)
                                  else
                                    (case decodeUint b2 of
                                       Inl e \<Rightarrow> (std_error e, p)
                                     | Inr (delta, b3) \<Rightarrow>
                                         if delta \<noteq> 0
                                         then (std_error
                                                 ''gob: decode: corrupted data: non-zero delta for singleton'', p)
                                         else
                                           (case decodeSlice b3 of
                                              Inl e \<Rightarrow> (std_error e, p)
                                            | Inr (xs, b4) \<Rightarrow> (nil, xs))))))))"

text \<open>
  The elements the encoding is followed for: nil, and the values of the predeclared boolean,
  integer and string types, an integer within the range of its type.
\<close>

fun gobValue :: "iface \<Rightarrow> bool" where
  "gobValue nil = True"
| "gobValue (Dyn t (DBool b)) = (t = boolType)"
| "gobValue (Dyn t (DInt i)) =
     (registered t \<and> (wireId (Kind t) = 2 \<or> wireId (Kind t) = 3) \<and> inRange (Kind t) i)"
| "gobValue (Dyn t (DString s)) = (t = stringType)"
| "gobValue (Dyn t d) = False"

subsection \<open>A small codec and formatter to run the definitions on\<close>

text \<open>
  For concrete runs the three library arguments are instantiated with a codec for lists of
  \<^verbatim>\<open>bool\<close> (one byte per element; anything else is refused with an error and nothing
  written) and a formatter that prints strings as they are and nil as \<^verbatim>\<open><nil>\<close>.
\<close>

fun isBool :: "iface \<Rightarrow> bool" where
  "isBool (Dyn t (DBool b)) = (t = boolType)"
| "isBool x = False"

definition bits_Encode :: gob_Encode where
  "bits_Encode p =
     (if list_all isBool p
      then (map (\<lambda>x. if x = Dyn boolType (DBool True) then CHR ''1'' else CHR ''0'') p, nil)
      else ([], errors_New ''bits: type not supported''))"

definition bits_Decode :: gob_Decode where
  "bits_Decode s p =
     (if list_all (\<lambda>c. c = CHR ''0'' \<or> c = CHR ''1'') s \<and> s \<noteq> []
      then (nil, map (\<lambda>c. Dyn boolType (DBool (c = CHR ''1''))) s)
      else (errors_New ''bits: malformed input'', p))"

fun plain_operand :: "iface \<Rightarrow> string" where
  "plain_operand nil = ''<nil>''"
| "plain_operand (Dyn t (DString s)) = s"
| "plain_operand (Dyn t (DBool b)) = (if b then ''true'' else ''false'')"
| "plain_operand (Dyn t d) = ''?''"

definition plain_Sprint :: fmt_Sprint where
  "plain_Sprint xs = concat (map plain_operand xs)"

subsection \<open>Values to run the definitions on\<close>

text \<open>\<^verbatim>\<open>func(a int, b string) error\<close>, and the arguments \<^verbatim>\<open>3\<close> and \<^verbatim>\<open>"x"\<close>.\<close>

abbreviation "jobType \<equiv> FuncOf [intType, stringType] [errorInterface] False"
abbreviation "three \<equiv> Dyn intType (DInt 3)"
abbreviation "ex \<equiv> Dyn stringType (DString ''x'')"
abbreviation "bTrue \<equiv> Dyn boolType (DBool True)"
abbreviation "bFalse \<equiv> Dyn boolType (DBool False)"

text \<open>Programs whose every body returns a nil error, returns an error, or panics.\<close>

abbreviation "returnsNil \<equiv> (\<lambda>c args. Returns [nil]) :: program"
abbreviation "returnsErr \<equiv> (\<lambda>c args. Returns [errors_New ''no route'']) :: program"
abbreviation "alwaysPanics \<equiv> (\<lambda>c args. Panics ''boom'') :: program"

text \<open>A store with one container, at address 7, all fields zero.\<close>

abbreviation "container0 \<equiv>
  \<lparr>jobFunc' = None, retryTimeout = 0, retryOnErrorLimit = 0, retryOnTimeoutLimit = 0\<rparr>"
abbreviation "store0 \<equiv> (Map.empty(7 \<mapsto> container0)) :: store"

section \<open>Facts about the reflect operations\<close>

lemma errors_New_not_nil: "errors_New m \<noteq> nil"
  by (simp add: errors_New_def)

lemma FuncOf_sel [simp]:
  "Kind (FuncOf ps rs v) = reflect_Func"
  "ins (FuncOf ps rs v) = ps"
  "outs (FuncOf ps rs v) = rs"
  "IsVariadic (FuncOf ps rs v) = v"
  by (simp_all add: FuncOf_def Let_def)

lemma Kind_basic [simp]:
  "Kind intType = reflect_Int" "Kind stringType = reflect_String" "Kind boolType = reflect_Bool"
  by (simp_all add: intType_def stringType_def boolType_def basic_def)

lemma AssignableTo_refl [simp]: "AssignableTo t t"
  by (simp add: AssignableTo_def directlyAssignable_def)

lemma chain_Returns [simp]: "chain (Returns (h, j)) f = f h j"
  by (simp add: chain_def)

lemma Kind_errorInterface [simp]: "Kind errorInterface = reflect_Interface"
  by (simp add: errorInterface_def)

lemma implements_error_self [simp]: "implements errorInterface errorInterface"
  by (simp add: implements_def errorInterface_def)

lemma implements_error_fundamental [simp]: "implements errorInterface fundamentalType"
  by (simp add: implements_def errorInterface_def fundamentalType_def)

section \<open>check\<close>

text \<open>One round of the loop, for a function type and as many arguments as parameters.\<close>

lemma check_loop_unfold:
  assumes "Kind t = reflect_Func" "length args = length (ins t)"
  shows "check_loop t args i =
     (if i < length (ins t) then
        (if Value_Kind (ValueOf (args ! i)) \<noteq> Kind (ins t ! i)
         then Returns (errors_New ''the arg(s) types do not match job args types'')
         else check_loop t args (Suc i))
      else Returns nil)"
  using assms by (subst check_loop.simps) (simp add: NumIn_def In_def index_def)

text \<open>The loop from \<open>i\<close> on rejects exactly when some later position differs in kind.\<close>

lemma check_loop_result:
  assumes "Kind t = reflect_Func" "length args = length (ins t)"
  shows "check_loop t args i =
     (if \<exists>k. i \<le> k \<and> k < length (ins t) \<and> Value_Kind (ValueOf (args ! k)) \<noteq> Kind (ins t ! k)
      then Returns (errors_New ''the arg(s) types do not match job args types'')
      else Returns nil)"
proof (induction "length (ins t) - i" arbitrary: i)
  case 0
  then have "\<not> i < length (ins t)" by simp
  then show ?case
    by (subst check_loop_unfold [OF assms]) auto
next
  case (Suc d)
  then have lt: "i < length (ins t)" and d: "d = length (ins t) - Suc i" by auto
  show ?case
  proof (cases "Value_Kind (ValueOf (args ! i)) \<noteq> Kind (ins t ! i)")
    case True
    with lt show ?thesis
      by (subst check_loop_unfold [OF assms]) auto
  next
    case False
    have "(\<exists>k. i \<le> k \<and> k < length (ins t) \<and> Value_Kind (ValueOf (args ! k)) \<noteq> Kind (ins t ! k))
        = (\<exists>k. Suc i \<le> k \<and> k < length (ins t) \<and> Value_Kind (ValueOf (args ! k)) \<noteq> Kind (ins t ! k))"
      using False by (metis Suc_leI le_neq_implies_less Suc_leD)
    with lt False Suc.hyps(1) [OF d] show ?thesis
      by (subst check_loop_unfold [OF assms]) simp
  qed
qed

lemma check_wellformed:
  assumes "jobFunc j = RV t x" "Kind t = reflect_Func" "outs t = [rt]"
    "implements errorInterface rt"
  shows "check j args =
     (if length (ins t) \<noteq> length args
      then Returns (errors_New ''the number of args do not match the jobs args'')
      else check_loop t args 0)"
  using assms
  by (simp add: check_def NumOut_def Out_def Implements_def NumIn_def)

text \<open>
  Claim C3. Let the bound value be a function with exactly one result whose type implements
  \<^verbatim>\<open>error\<close>, and \<open>n\<close> declared parameters. Then \<^verbatim>\<open>check\<close> on an argument list
  fails (returns an error that is not nil) if and only if the list does not have \<open>n\<close>
  elements or the kind of some argument, as \<^verbatim>\<open>reflect.ValueOf(arg).Kind()\<close> reports
  it, differs from the kind of the parameter at that position; when it does not fail it
  returns nil, and it never panics.
\<close>

theorem check_fails_iff:
  assumes "jobFunc j = RV t x" "Kind t = reflect_Func" "outs t = [rt]"
    "implements errorInterface rt"
  shows "failed (check j args) =
           (length args \<noteq> length (ins t) \<or>
            (\<exists>i<length (ins t). Value_Kind (ValueOf (args ! i)) \<noteq> Kind (ins t ! i)))
         \<and> (\<not> failed (check j args) \<longrightarrow> check j args = Returns nil)"
proof (cases "length args = length (ins t)")
  case True
  then show ?thesis
    by (simp add: check_wellformed [OF assms] check_loop_result [OF assms(2) True]
        errors_New_not_nil)
next
  case False
  then show ?thesis
    by (auto simp add: check_wellformed [OF assms] errors_New_not_nil)
qed

theorem check_fails_iff_witness:
  "\<not> failed (check (NewJobFunc (Dyn jobType (DFunc 0))) [three, ex])
   \<and> failed (check (NewJobFunc (Dyn jobType (DFunc 0))) [three])
   \<and> failed (check (NewJobFunc (Dyn jobType (DFunc 0))) [ex, three])"
proof -
  note th = check_fails_iff [where j = "NewJobFunc (Dyn jobType (DFunc 0))" and t = jobType
      and x = "Dyn jobType (DFunc 0)" and rt = errorInterface]
  show ?thesis
    using th [where args = "[three, ex]"] th [where args = "[three]"]
      th [where args = "[ex, three]"]
    by (simp add: NewJobFunc_def intType_def stringType_def basic_def Ex_less_Suc)
qed

text \<open>
  Claim C4. Whatever the argument list, \<^verbatim>\<open>check\<close> fails when the bound value is not
  a function (the zero Value of a nil interface included), when it is a function that does
  not declare exactly one result, and when its one result type does not implement
  \<^verbatim>\<open>error\<close>; each case has its own message.
\<close>

theorem check_rejects_callable:
  "(Value_Kind (jobFunc j) \<noteq> reflect_Func \<longrightarrow>
      check j args = Returns (errors_New ''jobFunc is not a function'') \<and> failed (check j args))
   \<and> (jobFunc j = RV t x \<and> Kind t = reflect_Func \<and> length (outs t) \<noteq> 1 \<longrightarrow>
      check j args = Returns (errors_New ''jobFunc needs to return one error'')
      \<and> failed (check j args))
   \<and> (jobFunc j = RV t x \<and> Kind t = reflect_Func \<and> outs t = [rt]
        \<and> \<not> implements errorInterface rt \<longrightarrow>
      check j args = Returns (errors_New ''jobFunc return type needs to be an error'')
      \<and> failed (check j args))"
  by (simp add: check_def NumOut_def Out_def Implements_def errors_New_not_nil)

theorem check_rejects_callable_witness:
  "failed (check (NewJobFunc three) [])
   \<and> failed (check (NewJobFunc nil) [ex])
   \<and> failed (check (NewJobFunc (Dyn (FuncOf [] [] False) (DFunc 0))) [])
   \<and> failed (check (NewJobFunc (Dyn (FuncOf [intType] [errorInterface, errorInterface] False)
                 (DFunc 0))) [three])
   \<and> failed (check (NewJobFunc (Dyn (FuncOf [intType] [intType] False) (DFunc 0))) [three])"
proof -
  have a: "failed (check (NewJobFunc three) [])"
  proof -
    have "Value_Kind (jobFunc (NewJobFunc three)) \<noteq> reflect_Func"
      by (simp add: NewJobFunc_def intType_def basic_def)
    with check_rejects_callable [where j = "NewJobFunc three" and args = "[]"
        and t = intType and x = three and rt = intType]
    show ?thesis by blast
  qed
  have b: "failed (check (NewJobFunc nil) [ex])"
  proof -
    have "Value_Kind (jobFunc (NewJobFunc nil)) \<noteq> reflect_Func"
      by (simp add: NewJobFunc_def)
    with check_rejects_callable [where j = "NewJobFunc nil" and args = "[ex]"
        and t = intType and x = three and rt = intType]
    show ?thesis by blast
  qed
  have c: "failed (check (NewJobFunc (Dyn (FuncOf [] [] False) (DFunc 0))) [])"
  proof -
    have "jobFunc (NewJobFunc (Dyn (FuncOf [] [] False) (DFunc 0)))
            = RV (FuncOf [] [] False) (Dyn (FuncOf [] [] False) (DFunc 0))
          \<and> Kind (FuncOf [] [] False) = reflect_Func
          \<and> length (outs (FuncOf [] [] False)) \<noteq> 1"
      by (simp add: NewJobFunc_def)
    with check_rejects_callable [where j = "NewJobFunc (Dyn (FuncOf [] [] False) (DFunc 0))"
        and args = "[]" and t = "FuncOf [] [] False"
        and x = "Dyn (FuncOf [] [] False) (DFunc 0)" and rt = intType]
    show ?thesis by blast
  qed
  have d: "failed (check (NewJobFunc (Dyn (FuncOf [intType] [errorInterface, errorInterface] False)
                 (DFunc 0))) [three])"
  proof -
    have "jobFunc (NewJobFunc (Dyn (FuncOf [intType] [errorInterface, errorInterface] False)
               (DFunc 0)))
            = RV (FuncOf [intType] [errorInterface, errorInterface] False)
                (Dyn (FuncOf [intType] [errorInterface, errorInterface] False) (DFunc 0))
          \<and> Kind (FuncOf [intType] [errorInterface, errorInterface] False) = reflect_Func
          \<and> length (outs (FuncOf [intType] [errorInterface, errorInterface] False)) \<noteq> 1"
      by (simp add: NewJobFunc_def)
    with check_rejects_callable
      [where j = "NewJobFunc (Dyn (FuncOf [intType] [errorInterface, errorInterface] False)
                    (DFunc 0))"
        and args = "[three]" and t = "FuncOf [intType] [errorInterface, errorInterface] False"
        and x = "Dyn (FuncOf [intType] [errorInterface, errorInterface] False) (DFunc 0)"
        and rt = intType]
    show ?thesis by blast
  qed
  have e: "failed (check (NewJobFunc (Dyn (FuncOf [intType] [intType] False) (DFunc 0))) [three])"
  proof -
    have "jobFunc (NewJobFunc (Dyn (FuncOf [intType] [intType] False) (DFunc 0)))
            = RV (FuncOf [intType] [intType] False)
                (Dyn (FuncOf [intType] [intType] False) (DFunc 0))
          \<and> Kind (FuncOf [intType] [intType] False) = reflect_Func
          \<and> outs (FuncOf [intType] [intType] False) = [intType]
          \<and> \<not> implements errorInterface intType"
      by (simp add: NewJobFunc_def implements_def intType_def basic_def errorInterface_def)
    with check_rejects_callable
      [where j = "NewJobFunc (Dyn (FuncOf [intType] [intType] False) (DFunc 0))"
        and args = "[three]" and t = "FuncOf [intType] [intType] False"
        and x = "Dyn (FuncOf [intType] [intType] False) (DFunc 0)" and rt = intType]
    show ?thesis by blast
  qed
  from a b c d e show ?thesis by blast
qed

section \<open>execute\<close>

lemma paramsCount_func:
  "jobFunc j = RV t x \<Longrightarrow> Kind t = reflect_Func \<Longrightarrow> paramsCount j = Returns (length (ins t))"
  by (simp add: paramsCount_def NumIn_def)

text \<open>
  Claim C5. Let the bound value be a function with \<open>n\<close> declared parameters. With a
  parameter list of another length \<^verbatim>\<open>execute\<close> returns the error
  \<^verbatim>\<open>func parameters mismatch\<close>, and it does so whatever the bodies of the program do
  (the function is not called). With \<open>n\<close> parameters, when the reflect call of the function
  returns one result that is the nil error, \<^verbatim>\<open>execute\<close> returns nil.
\<close>

theorem execute_arity:
  assumes "jobFunc j = RV t x" "Kind t = reflect_Func"
  shows "(length params \<noteq> length (ins t) \<longrightarrow>
            execute prog j params = Returns (errors_New ''func parameters mismatch'')
            \<and> execute prog j params = execute prog' j params)
       \<and> (length params = length (ins t)
            \<and> Call prog (jobFunc j) (map ValueOf params) = Returns [RV rt nil] \<longrightarrow>
            execute prog j params = Returns nil)"
  using assms by (simp add: execute_def paramsCount_func index_def)

theorem execute_arity_witness:
  "execute returnsNil (NewJobFunc (Dyn jobType (DFunc 0))) [three]
     = Returns (errors_New ''func parameters mismatch'')
   \<and> execute returnsNil (NewJobFunc (Dyn jobType (DFunc 0))) [three, ex] = Returns nil"
proof -
  note th = execute_arity [where j = "NewJobFunc (Dyn jobType (DFunc 0))" and t = jobType
      and x = "Dyn jobType (DFunc 0)" and prog = returnsNil and prog' = returnsNil
      and rt = errorInterface]
  have c: "Call returnsNil (jobFunc (NewJobFunc (Dyn jobType (DFunc 0)))) (map ValueOf [three, ex])
             = Returns [RV errorInterface nil]"
    by (simp add: Call_def NewJobFunc_def)
  show ?thesis
    using th [where params = "[three]"] th [where params = "[three, ex]"] c
    by (simp add: NewJobFunc_def)
qed

text \<open>
  Claim C6. When \<^verbatim>\<open>execute\<close> gets as many parameters as the function declares and the
  reflect call of the function returns one result that is an error value and not nil (an
  interface value whose dynamic type implements \<^verbatim>\<open>error\<close>), \<^verbatim>\<open>execute\<close> returns
  that very value.
\<close>

theorem execute_returns_callee_error:
  assumes "paramsCount j = Returns (length params)"
    and "Call prog (jobFunc j) (map ValueOf params) = Returns [RV rt (Dyn te d)]"
    and "implements errorInterface te"
  shows "execute prog j params = Returns (Dyn te d)"
  using assms by (simp add: execute_def index_def)

theorem execute_returns_callee_error_witness:
  "execute returnsErr (NewJobFunc (Dyn jobType (DFunc 0))) [three, ex]
     = Returns (errors_New ''no route'')"
proof -
  have p: "paramsCount (NewJobFunc (Dyn jobType (DFunc 0))) = Returns (length [three, ex])"
    by (simp add: paramsCount_def NumIn_def NewJobFunc_def)
  have c: "Call returnsErr (jobFunc (NewJobFunc (Dyn jobType (DFunc 0)))) (map ValueOf [three, ex])
             = Returns [RV errorInterface (Dyn fundamentalType (DString ''no route''))]"
    by (simp add: Call_def NewJobFunc_def errors_New_def)
  show ?thesis
    using execute_returns_callee_error [OF p c] by (simp add: errors_New_def)
qed

text \<open>
  Claim C7 says that a panic of the bound function comes back from \<^verbatim>\<open>execute\<close> as an
  error result. It does not: \<^verbatim>\<open>execute\<close> has no \<^verbatim>\<open>recover\<close>, so for
  \<^verbatim>\<open>func(a int, b string) error\<close> with a body that panics, called on \<^verbatim>\<open>(3, "x")\<close>,
  the outcome of \<^verbatim>\<open>execute\<close> is that panic and no error is returned.
\<close>

theorem execute_panic_counterexample:
  "execute alwaysPanics (NewJobFunc (Dyn jobType (DFunc 0))) [three, ex] = Panics ''boom''
   \<and> \<not> failed (execute alwaysPanics (NewJobFunc (Dyn jobType (DFunc 0))) [three, ex])"
  by (simp add: execute_def paramsCount_def NumIn_def NewJobFunc_def Call_def)

text \<open>
  Claim C7, amended. When \<^verbatim>\<open>execute\<close> gets as many parameters as the function declares
  and the reflect call panics (in the bound function or in package reflect), the panic
  leaves \<^verbatim>\<open>execute\<close> as a panic, with the same value; \<^verbatim>\<open>execute\<close> returns no error.
\<close>

theorem execute_callee_panic:
  assumes "paramsCount j = Returns (length params)"
    and "Call prog (jobFunc j) (map ValueOf params) = Panics m"
  shows "execute prog j params = Panics m \<and> \<not> failed (execute prog j params)"
  using assms by (simp add: execute_def)

theorem execute_callee_panic_witness:
  "execute alwaysPanics (NewJobFunc (Dyn (FuncOf [] [errorInterface] False) (DFunc 0))) []
     = Panics ''boom''"
proof -
  have p: "paramsCount (NewJobFunc (Dyn (FuncOf [] [errorInterface] False) (DFunc 0)))
             = Returns (length ([] :: iface list))"
    by (simp add: paramsCount_def NumIn_def NewJobFunc_def)
  have c: "Call alwaysPanics (jobFunc (NewJobFunc (Dyn (FuncOf [] [errorInterface] False) (DFunc 0))))
             (map ValueOf []) = Panics ''boom''"
    by (simp add: Call_def NewJobFunc_def)
  show ?thesis
    using execute_callee_panic [OF p c] by simp
qed

text \<open>
  Claim C9. \<^verbatim>\<open>execute\<close> does not compare kinds. For \<^verbatim>\<open>func(a int, b string) error\<close>
  and the parameters \<^verbatim>\<open>("x", 3)\<close> the count is right and the first kind is not the
  declared one; whatever the program, \<^verbatim>\<open>execute\<close> panics inside
  \<^verbatim>\<open>reflect.Value.Call\<close> and returns no error value.
\<close>

theorem execute_kind_mismatch_panics:
  "paramsCount (NewJobFunc (Dyn jobType (DFunc 0))) = Returns (length [ex, three])
   \<and> Value_Kind (ValueOf ([ex, three] ! 0)) \<noteq> Kind (ins jobType ! 0)
   \<and> execute prog (NewJobFunc (Dyn jobType (DFunc 0))) [ex, three]
       = Panics ''reflect: Call using string as type int''"
  by (simp add: execute_def paramsCount_def NumIn_def NewJobFunc_def Call_def
      AssignableTo_def directlyAssignable_def implements_def intType_def stringType_def basic_def)

section \<open>The setters of JobContainer\<close>

text \<open>
  Claim C8. On a container that exists, each of \<^verbatim>\<open>RetryTimeout\<close>,
  \<^verbatim>\<open>RetryErrorLimit\<close> and \<^verbatim>\<open>RetryTimeoutLimit\<close> writes its one field of the
  container behind the pointer, leaves the rest of the store alone and returns the pointer
  it was called on. Calling the same setter twice leaves the value of the second call. Two
  setters of different fields commute, and the three setters chained in any of the six orders
  end in the same store and pointer.
\<close>

theorem JobContainer_setters:
  assumes "h j = Some c"
  shows "RetryTimeout h j t = Returns (h(j \<mapsto> c\<lparr>retryTimeout := t\<rparr>), j)
       \<and> RetryErrorLimit h j e = Returns (h(j \<mapsto> c\<lparr>retryOnErrorLimit := e\<rparr>), j)
       \<and> RetryTimeoutLimit h j l = Returns (h(j \<mapsto> c\<lparr>retryOnTimeoutLimit := l\<rparr>), j)
       \<and> chain (RetryTimeout h j t') (\<lambda>h j. RetryTimeout h j t) = RetryTimeout h j t
       \<and> chain (RetryErrorLimit h j e') (\<lambda>h j. RetryErrorLimit h j e) = RetryErrorLimit h j e
       \<and> chain (RetryTimeoutLimit h j l') (\<lambda>h j. RetryTimeoutLimit h j l) = RetryTimeoutLimit h j l
       \<and> chain (RetryTimeout h j t) (\<lambda>h j. RetryErrorLimit h j e)
           = chain (RetryErrorLimit h j e) (\<lambda>h j. RetryTimeout h j t)
       \<and> chain (RetryTimeout h j t) (\<lambda>h j. RetryTimeoutLimit h j l)
           = chain (RetryTimeoutLimit h j l) (\<lambda>h j. RetryTimeout h j t)
       \<and> chain (RetryErrorLimit h j e) (\<lambda>h j. RetryTimeoutLimit h j l)
           = chain (RetryTimeoutLimit h j l) (\<lambda>h j. RetryErrorLimit h j e)
       \<and> chain (chain (RetryTimeout h j t) (\<lambda>h j. RetryErrorLimit h j e)) (\<lambda>h j. RetryTimeoutLimit h j l)
           = Returns (h(j \<mapsto> c\<lparr>retryTimeout := t, retryOnErrorLimit := e,
                                   retryOnTimeoutLimit := l\<rparr>), j)
       \<and> chain (chain (RetryTimeout h j t) (\<lambda>h j. RetryTimeoutLimit h j l)) (\<lambda>h j. RetryErrorLimit h j e)
           = Returns (h(j \<mapsto> c\<lparr>retryTimeout := t, retryOnErrorLimit := e,
                                   retryOnTimeoutLimit := l\<rparr>), j)
       \<and> chain (chain (RetryErrorLimit h j e) (\<lambda>h j. RetryTimeout h j t)) (\<lambda>h j. RetryTimeoutLimit h j l)
           = Returns (h(j \<mapsto> c\<lparr>retryTimeout := t, retryOnErrorLimit := e,
                                   retryOnTimeoutLimit := l\<rparr>), j)
       \<and> chain (chain (RetryErrorLimit h j e) (\<lambda>h j. RetryTimeoutLimit h j l)) (\<lambda>h j. RetryTimeout h j t)
           = Returns (h(j \<mapsto> c\<lparr>retryTimeout := t, retryOnErrorLimit := e,
                                   retryOnTimeoutLimit := l\<rparr>), j)
       \<and> chain (chain (RetryTimeoutLimit h j l) (\<lambda>h j. RetryTimeout h j t)) (\<lambda>h j. RetryErrorLimit h j e)
           = Returns (h(j \<mapsto> c\<lparr>retryTimeout := t, retryOnErrorLimit := e,
                                   retryOnTimeoutLimit := l\<rparr>), j)
       \<and> chain (chain (RetryTimeoutLimit h j l) (\<lambda>h j. RetryErrorLimit h j e)) (\<lambda>h j. RetryTimeout h j t)
           = Returns (h(j \<mapsto> c\<lparr>retryTimeout := t, retryOnErrorLimit := e,
                                   retryOnTimeoutLimit := l\<rparr>), j)"
  using assms
  by (cases c) (simp add: RetryTimeout_def RetryErrorLimit_def RetryTimeoutLimit_def)

theorem JobContainer_setters_witness:
  "chain (RetryTimeout store0 7 10) (\<lambda>h j. RetryTimeout h j 30)
     = Returns (store0(7 \<mapsto> container0\<lparr>retryTimeout := 30\<rparr>), 7)
   \<and> chain (chain (RetryTimeout store0 7 30) (\<lambda>h j. RetryErrorLimit h j 3))
        (\<lambda>h j. RetryTimeoutLimit h j 2)
     = chain (chain (RetryTimeoutLimit store0 7 2) (\<lambda>h j. RetryErrorLimit h j 3))
        (\<lambda>h j. RetryTimeout h j 30)"
proof -
  have s: "store0 7 = Some container0" by simp
  note th = JobContainer_setters [where h = store0 and j = 7 and c = container0
      and t = 30 and t' = 10 and e = 3 and e' = 1 and l = 2 and l' = 1, OF s]
  note stores = th [THEN conjunct1]
  note last_wins = th [THEN conjunct2, THEN conjunct2, THEN conjunct2, THEN conjunct1]
  note tail = th [THEN conjunct2, THEN conjunct2, THEN conjunct2, THEN conjunct2, THEN conjunct2,
      THEN conjunct2, THEN conjunct2, THEN conjunct2, THEN conjunct2]
  note forwards = tail [THEN conjunct1]
  note backwards = tail [THEN conjunct2, THEN conjunct2, THEN conjunct2, THEN conjunct2,
      THEN conjunct2]
  have a: "chain (RetryTimeout store0 7 10) (\<lambda>h j. RetryTimeout h j 30)
     = Returns (store0(7 \<mapsto> container0\<lparr>retryTimeout := 30\<rparr>), 7)"
    by (simp only: last_wins stores)
  have b: "chain (chain (RetryTimeout store0 7 30) (\<lambda>h j. RetryErrorLimit h j 3))
        (\<lambda>h j. RetryTimeoutLimit h j 2)
     = chain (chain (RetryTimeoutLimit store0 7 2) (\<lambda>h j. RetryErrorLimit h j 3))
        (\<lambda>h j. RetryTimeout h j 30)"
    by (simp only: forwards backwards)
  from a b show ?thesis by (rule conjI)
qed

section \<open>The gob encoding read back\<close>













lemma decodeUint_zero: "decodeUint (char_of (0::nat) # r) = Inr (0, r)"
  by simp


lemma registered_iff: "registered t \<longleftrightarrow> (\<exists>k \<in> set gobKinds. t = basic k (Kind_String k))"
  by (simp add: registered_def list_ex_iff)

lemma gobKinds_cases:
  assumes "k \<in> set gobKinds"
  obtains "k = reflect_Bool" | "k = reflect_Int" | "k = reflect_Int8" | "k = reflect_Int16"
    | "k = reflect_Int32" | "k = reflect_Int64" | "k = reflect_Uint" | "k = reflect_Uint8"
    | "k = reflect_Uint16" | "k = reflect_Uint32" | "k = reflect_Uint64" | "k = reflect_Uintptr"
    | "k = reflect_String"
  using assms unfolding gobKinds_def by (simp only: set_simps insert_iff empty_iff) blast


lemma name_gobKinds:
  "k \<in> set gobKinds \<Longrightarrow> Kind_String k \<noteq> [] \<and> length (Kind_String k) \<le> 7 \<and> k \<noteq> reflect_Pointer
     \<and> wireId k \<in> {1, 2, 3, 6}"
  by (erule gobKinds_cases) simp_all


lemma registeredE:
  assumes "registered t"
  obtains k where "k \<in> set gobKinds" "t = basic k (Kind_String k)" "Kind t = k"
    "String t = Kind_String k"
  using assms by (auto simp add: registered_iff basic_def)

lemma name_registered:
  assumes "registered t"
  shows "String t \<noteq> [] \<and> length (String t) \<le> 7 \<and> Kind t \<noteq> reflect_Pointer
     \<and> wireId (Kind t) \<in> {1, 2, 3, 6}"
proof -
  from assms obtain k where k: "k \<in> set gobKinds" "Kind t = k" "String t = Kind_String k"
    by (rule registeredE)
  from name_gobKinds [OF k(1)] show ?thesis unfolding k(2,3) .
qed



lemma registered_bool_string [simp]: "registered boolType" "registered stringType"
  by (simp_all add: registered_def gobKinds_def boolType_def stringType_def)







lemma encodeInterface_gobValue: "gobValue x \<Longrightarrow> \<exists>e. encodeInterface x = Inr e"
proof (cases x)
  case nil
  then show ?thesis by simp
next
  case (Dyn t d)
  assume "gobValue x"
  with Dyn have "registered t" by (cases d) simp_all
  with Dyn name_registered [of t] show ?thesis by (simp add: Let_def)
qed

lemma encodeArray_gobValue: "list_all gobValue xs \<Longrightarrow> \<exists>es. encodeArray xs = Inr es"
proof (induction xs)
  case Nil
  then show ?case by simp
next
  case (Cons x xs)
  then obtain e es where "encodeInterface x = Inr e" "encodeArray xs = Inr es"
    using encodeInterface_gobValue [of x] by auto
  then show ?case by simp
qed




section \<open>Value and Scan\<close>

text \<open>
  Claim C10. \<^verbatim>\<open>Value\<close> never returns an error that is not nil, whatever the encoder
  returns; for a list that is not empty the driver value is the string of the bytes the
  encoder left in the buffer, be they complete or not.
\<close>

theorem Value_never_errors:
  "snd (Value Encode p) = nil
   \<and> (p \<noteq> [] \<longrightarrow> fst (Value Encode p) = Dyn stringType (DString (fst (Encode p))))"
  by (simp add: Value_def split: prod.splits)

theorem Value_never_errors_witness:
  "snd (bits_Encode [three]) \<noteq> nil
   \<and> Value bits_Encode [three] = (Dyn stringType (DString []), nil)"
  using Value_never_errors [of bits_Encode "[three]"]
  by (simp add: bits_Encode_def errors_New_def intType_def basic_def boolType_def prod_eq_iff)




text \<open>
  The bytes for \<^verbatim>\<open>Args{3, "x"}\<close>: the definition of type 65, a slice named
  \<^verbatim>\<open>Args\<close> of elements of type 8, then the value, two elements, \<^verbatim>\<open>int\<close> 3 and
  \<^verbatim>\<open>string\<close> \<^verbatim>\<open>x\<close>.
\<close>

lemma gob_Encode_example:
  "map of_char (fst (gob_Encode [three, ex])) =
     [0x12, 0xff, 0x81, 0x02, 0x01, 0x01, 0x04, 0x41, 0x72, 0x67, 0x73, 0x01, 0xff, 0x82,
      0x00, 0x01, 0x10, 0x00, 0x00,
      0x18, 0xff, 0x82, 0x00, 0x02,
      0x03, 0x69, 0x6e, 0x74, 0x04, 0x02, 0x00, 0x06,
      0x06, 0x73, 0x74, 0x72, 0x69, 0x6e, 0x67, 0x0c, 0x03, 0x00, 0x01, 0x78 :: nat]
   \<and> snd (gob_Encode [three, ex]) = nil"
  by (simp add: gob_Encode_def registered_def gobKinds_def intType_def stringType_def
      basic_def Let_def tooBig_def encodeInt_def encodeUint_def bigEndian.simps message_def
      wireSlice_def)

text \<open>
  For a list of followed elements \<^verbatim>\<open>Encode\<close> fails only on the size of the value
  message.
\<close>

lemma gob_Encode_error:
  assumes "list_all gobValue a"
  shows "\<exists>els. encodeArray a = Inr els
           \<and> (snd (gob_Encode a) = nil) =
               (length (encodeInt 65 @ [char_of (0::nat)] @ encodeUint (length a) @ els) < tooBig)"
proof -
  from encodeArray_gobValue [OF assms] obtain els where "encodeArray a = Inr els" ..
  then show ?thesis
    by (auto simp add: gob_Encode_def Let_def std_error_def)
qed

text \<open>
  An element of a type that is not registered stops the encoder after the type definition:
  the buffer holds those 19 bytes and \<^verbatim>\<open>Encode\<close> returns the error. The decoder meets
  the end of the input on the empty string and on bytes that announce more than follows.
\<close>

lemma gob_Encode_unregistered:
  "gob_Encode [three, Dyn jobType (DFunc 0)] =
     (take 19 (fst (gob_Encode [three, ex])),
      std_error (''gob: type not registered for interface: '' @ String jobType))"
  by (simp add: gob_Encode_def registered_def gobKinds_def intType_def stringType_def
      basic_def Let_def tooBig_def encodeInt_def encodeUint_def bigEndian.simps message_def
      wireSlice_def FuncOf_def)

lemma gob_Decode_short:
  "gob_Decode [] p = (std_error ''EOF'', p)"
  "gob_Decode ''101'' p = (std_error ''unexpected EOF'', p)"
  "gob_Decode (take 19 (fst (gob_Encode [three, ex]))) p = (std_error ''unexpected EOF'', p)"
  by (simp_all add: gob_Decode_def recvMessage_def tooBig_def nextInt_def toInt_def uintOf_def
      decodeWireType_def decodeSliceType_def decodeCommonType_def decodeId_def decodeElem_def
      endStruct_def decString_def decodeInt_def
      gob_Encode_def registered_def gobKinds_def intType_def stringType_def
      basic_def Let_def encodeInt_def encodeUint_def bigEndian.simps message_def wireSlice_def)

text \<open>
  Claim C2 says that the empty list survives encoding and decoding without an error. With
  a fresh receiver, \<^verbatim>\<open>Scan\<close> on what \<^verbatim>\<open>Value\<close> gave for the empty list returns the
  error \<^verbatim>\<open>failed to unmarshal params value:<nil>\<close>.
\<close>

theorem empty_roundtrip_counterexample:
  "fst (Scan plain_Sprint bits_Decode [] (fst (Value bits_Encode []))) \<noteq> nil
   \<and> Scan plain_Sprint bits_Decode [] (fst (Value bits_Encode []))
       = (errors_New ''failed to unmarshal params value:<nil>'', [])"
  by (simp add: Scan_def Value_def plain_Sprint_def errors_New_def)

text \<open>
  Claim C2, amended. \<^verbatim>\<open>Value\<close> on the empty list returns the nil driver value and a nil
  error, without running the encoder. \<^verbatim>\<open>Scan\<close> on nil returns the error built from
  \<^verbatim>\<open>fmt.Sprint\<close>, which is not nil, and leaves the receiver as it was, without running
  the decoder.
\<close>

theorem Value_empty_Scan_nil:
  "Value Encode [] = (nil, nil)
   \<and> Scan Sprint Decode p nil
       = (errors_New (Sprint [Dyn stringType (DString ''failed to unmarshal params value:''), nil]), p)
   \<and> fst (Scan Sprint Decode p (fst (Value Encode []))) \<noteq> nil"
  by (simp add: Scan_def Value_def errors_New_def)

end
